theory Spec2Isabelle
  imports Complex_Main "HOL-Library.AList"
begin

section \<open>The telescope adapter \<open>INDIConnection\<close>\<close>

text \<open>
  A shallow embedding of \<^verbatim>\<open>src/plugins/TelescopeControl/src/INDI/INDIConnection.cpp\<close>,
  the adapter between the telescope-control plugin and the INDI client library.

  Every public operation of the class takes the mutex \<open>mMutex\<close> for its whole body, so an
  operation is one atomic step: a function from the state before the call to the state
  after it. Diagnostic output (\<open>qDebug\<close>) changes neither the adapter nor the device and
  is left out of the state.
\<close>

subsection \<open>Values of type \<open>double\<close>\<close>

text \<open>
  The coordinates are C++ \<open>double\<close>s, taken to be IEEE 754 binary64 numbers with the
  default rounding (to nearest, ties to even). A value is NaN, an infinity, or finite;
  a finite value is given by the real number it denotes (the two zeros are not
  distinguished: no comparison tells them apart). The type has a finite value for every
  real number, the doubles among them; arithmetic rounds its result to a double. Every
  ordered comparison with NaN is false.
\<close>

datatype double = Fin real | PInf | NInf | NaN

text \<open>
  Rounding a real number to an integer, ties to the even neighbour.
\<close>

definition roundeven :: "real \<Rightarrow> int" where
  "roundeven q =
     (let f = \<lfloor>q\<rfloor> in
      if q - of_int f < 1 / 2 then f
      else if 1 / 2 < q - of_int f then f + 1
      else if even f then f else f + 1)"

text \<open>
  Rounding a real number to binary64. The finite doubles are the numbers \<open>n * 2 ^ k\<close>
  with \<open>|n| < 2 ^ 53\<close> and \<open>-1074 \<le> k \<le> 971\<close>. For \<open>2 ^ e \<le> |x| < 2 ^ (e + 1)\<close> their
  spacing around \<open>x\<close> is \<open>u = 2 ^ (e - 52)\<close>, with \<open>e\<close> taken as -1022 for the subnormal
  numbers below \<open>2 ^ -1022\<close>; \<open>|x|\<close> is rounded to a multiple of \<open>u\<close>, and a magnitude
  that reaches \<open>2 ^ 1024\<close> overflows to an infinity.
\<close>

definition round_double :: "real \<Rightarrow> double" where
  "round_double x =
     (if x = 0 then Fin 0
      else
        (let e = max \<lfloor>log 2 \<bar>x\<bar>\<rfloor> (- 1022);
             u = 2 powr (of_int e - 52);
             m = of_int (roundeven (\<bar>x\<bar> / u)) * u
         in if 2 powr 1024 \<le> m then (if x < 0 then NInf else PInf)
            else Fin (if x < 0 then - m else m)))"

text \<open>
  \<open>operator-\<close> on doubles: the exact difference of two finite values, rounded.
\<close>

fun dminus :: "double \<Rightarrow> double \<Rightarrow> double" where
  "dminus NaN b = NaN"
| "dminus a NaN = NaN"
| "dminus PInf PInf = NaN"
| "dminus NInf NInf = NaN"
| "dminus PInf b = PInf"
| "dminus NInf b = NInf"
| "dminus (Fin x) PInf = NInf"
| "dminus (Fin x) NInf = PInf"
| "dminus (Fin x) (Fin y) = round_double (x - y)"

text \<open>\<open>std::abs\<close> on doubles.\<close>

fun dabs :: "double \<Rightarrow> double" where
  "dabs (Fin x) = Fin \<bar>x\<bar>"
| "dabs PInf = PInf"
| "dabs NInf = PInf"
| "dabs NaN = NaN"

text \<open>\<open>operator>\<close> and \<open>operator<=\<close> on doubles.\<close>

fun dgreater :: "double \<Rightarrow> double \<Rightarrow> bool" where
  "dgreater NaN b = False"
| "dgreater a NaN = False"
| "dgreater (Fin x) (Fin y) = (x > y)"
| "dgreater PInf PInf = False"
| "dgreater PInf b = True"
| "dgreater a PInf = False"
| "dgreater NInf b = False"
| "dgreater (Fin x) NInf = True"

fun dle :: "double \<Rightarrow> double \<Rightarrow> bool" where
  "dle NaN b = False"
| "dle a NaN = False"
| "dle (Fin x) (Fin y) = (x \<le> y)"
| "dle PInf PInf = True"
| "dle PInf b = False"
| "dle a PInf = True"
| "dle NInf b = True"
| "dle (Fin x) NInf = False"

text \<open>\<open>std::numeric_limits<double>::epsilon()\<close>: the gap between 1 and the next double.\<close>

definition epsilon :: double where
  "epsilon = Fin (1 / 2 ^ 52)"

subsection \<open>Coordinates\<close>

record Coordinates =
  RA :: double
  DEC :: double

text \<open>\<open>Coordinates::operator==\<close>: two early returns, then \<open>true\<close>.\<close>

definition Coordinates_eq :: "Coordinates \<Rightarrow> Coordinates \<Rightarrow> bool" where
  "Coordinates_eq this other =
     (if dgreater (dabs (dminus (RA this) (RA other))) epsilon then False
      else if dgreater (dabs (dminus (DEC this) (DEC other))) epsilon then False
      else True)"

text \<open>\<open>Coordinates::operator!=\<close>.\<close>

definition Coordinates_neq :: "Coordinates \<Rightarrow> Coordinates \<Rightarrow> bool" where
  "Coordinates_neq this other = (\<not> Coordinates_eq this other)"

subsection \<open>The INDI client library, as the adapter uses it\<close>

text \<open>
  The library is not part of the repository. Its objects are modelled by the data the
  adapter reads and writes through them.
\<close>

datatype ISState = ISS_OFF | ISS_ON

text \<open>A member of a switch vector: its name and its state \<open>s\<close>.\<close>

datatype ISwitch = ISwitch (swName: string) (swState: ISState)

text \<open>
  A device as seen through a valid \<open>INDI::BaseDevice\<close> handle: its name, what
  \<open>isConnected()\<close> answers (\<open>devConnected\<close>), and its switch and number vector properties by name
  (a number vector is the list of its members' values). A handle is
  \<open>BaseDeviceData option\<close>: \<open>None\<close> is the default-constructed, invalid handle
  \<open>INDI::BaseDevice()\<close>, the one for which \<open>!dp\<close> holds.
\<close>

record BaseDeviceData =
  deviceName :: string
  devConnected :: bool
  switches :: "(string \<times> ISwitch list) list"
  numbers :: "(string \<times> double list) list"

type_synonym BaseDevice = "BaseDeviceData option"

text \<open>An invalid handle has the empty name, is not connected and has no property.\<close>

definition getDeviceName :: "BaseDevice \<Rightarrow> string" where
  "getDeviceName dp = (case dp of None \<Rightarrow> [] | Some d \<Rightarrow> deviceName d)"

definition isDeviceNameMatch :: "BaseDevice \<Rightarrow> string \<Rightarrow> bool" where
  "isDeviceNameMatch dp otherName = (getDeviceName dp = otherName)"

definition isConnected :: "BaseDevice \<Rightarrow> bool" where
  "isConnected dp = (case dp of None \<Rightarrow> False | Some d \<Rightarrow> devConnected d)"

definition getSwitch :: "BaseDevice \<Rightarrow> string \<Rightarrow> ISwitch list option" where
  "getSwitch dp name = (case dp of None \<Rightarrow> None | Some d \<Rightarrow> map_of (switches d) name)"

definition getNumber :: "BaseDevice \<Rightarrow> string \<Rightarrow> double list option" where
  "getNumber dp name = (case dp of None \<Rightarrow> None | Some d \<Rightarrow> map_of (numbers d) name)"

text \<open>
  \<open>IUFindSwitch\<close> and \<open>findWidgetByName\<close>: the first member with the given name, or a null
  pointer. The member is identified by its index in the vector.
\<close>

fun IUFindSwitch :: "ISwitch list \<Rightarrow> string \<Rightarrow> nat option" where
  "IUFindSwitch [] name = None"
| "IUFindSwitch (w # ws) name =
     (if swName w = name then Some 0 else map_option Suc (IUFindSwitch ws name))"

definition findWidgetByName :: "ISwitch list \<Rightarrow> string \<Rightarrow> nat option" where
  "findWidgetByName svp name = IUFindSwitch svp name"

text \<open>Assigning the state of member \<open>i\<close> (\<open>member->s = st\<close>, \<open>setState(st)\<close>).\<close>

definition setState :: "nat \<Rightarrow> ISState \<Rightarrow> ISwitch list \<Rightarrow> ISwitch list" where
  "setState i st svp = svp[i := ISwitch (swName (svp ! i)) st]"

text \<open>\<open>reset()\<close>: every member off.\<close>

definition reset :: "ISwitch list \<Rightarrow> ISwitch list" where
  "reset svp = map (\<lambda>w. ISwitch (swName w) ISS_OFF) svp"

text \<open>\<open>findOnSwitchIndex()\<close>: the index of the first member that is on, or -1.\<close>

fun findOnSwitchIndex :: "ISwitch list \<Rightarrow> int" where
  "findOnSwitchIndex [] = - 1"
| "findOnSwitchIndex (w # ws) =
     (if swState w = ISS_ON then 0
      else (let i = findOnSwitchIndex ws in if i = - 1 then - 1 else i + 1))"

text \<open>The state of the member called \<open>name\<close>, for reading a vector in a theorem.\<close>

definition memberState :: "ISwitch list \<Rightarrow> string \<Rightarrow> ISState option" where
  "memberState svp name = map_option (\<lambda>i. swState (svp ! i)) (IUFindSwitch svp name)"

text \<open>
  A property as a callback receives it (\<open>INDI::Property\<close>): the name of its device, its
  own name, and its vector. \<open>getSwitch()\<close> and \<open>getNumber()\<close> give a null pointer for a
  property of another type.
\<close>

datatype PropertyData = SwitchData "ISwitch list" | NumberData "double list" | OtherData

record Property =
  propDevice :: string
  propName :: string
  propData :: PropertyData

definition isNameMatch :: "Property \<Rightarrow> string \<Rightarrow> bool" where
  "isNameMatch property otherName = (propName property = otherName)"

text \<open>
  What the adapter asks the client base class to transmit: a switch vector
  (\<open>sendNewSwitch\<close>, \<open>sendNewProperty\<close>) or a number vector (\<open>sendNewNumber\<close>) of a device,
  with the members as they are at that moment, or a connect request for a device name
  (\<open>connectDevice\<close>). The calls return nothing, so the adapter never sees the outcome of
  a transmission; a device answers later, through the callbacks.
\<close>

datatype command =
    SendNewSwitch string string "ISwitch list"
  | SendNewNumber string string "double list"
  | SendNewProperty string string "ISwitch list"
  | ConnectDevice string

text \<open>The Qt signals the adapter emits.\<close>

datatype signal =
    newDeviceReceived string
  | removeDeviceReceived string
  | speedChanged int
  | serverConnectedReceived
  | serverDisconnectedReceived int

text \<open>
  Dereferencing a null pointer and indexing a vector past its end are undefined in C++;
  the model stops there with a fault.
\<close>

datatype fault = NullPointer | OutOfRange

subsection \<open>The adapter's state\<close>

text \<open>
  The three members \<open>mTelescope\<close>, \<open>mCoordinates\<close> and \<open>mDevices\<close>, and the two traces of
  what the adapter has done so far, oldest first: the commands handed to the client
  (\<open>sent\<close>) and the signals emitted (\<open>emitted\<close>). The handle \<open>mTelescope\<close> shares the
  device with the library; the model keeps the device's data in the handle, and a write
  through a property or member pointer is a write to that data.
\<close>

record INDIConnection =
  mTelescope :: BaseDevice
  mCoordinates :: Coordinates
  mDevices :: "string list"
  sent :: "command list"
  emitted :: "signal list"

definition send :: "command \<Rightarrow> INDIConnection \<Rightarrow> INDIConnection" where
  "send cmd c = c\<lparr>sent := sent c @ [cmd]\<rparr>"

definition emit :: "signal \<Rightarrow> INDIConnection \<Rightarrow> INDIConnection" where
  "emit sig c = c\<lparr>emitted := emitted c @ [sig]\<rparr>"

text \<open>The members of a switch or number vector of the active telescope, after writes.\<close>

definition storeSwitch :: "string \<Rightarrow> ISwitch list \<Rightarrow> INDIConnection \<Rightarrow> INDIConnection" where
  "storeSwitch name svp c =
     c\<lparr>mTelescope :=
         map_option (\<lambda>d. d\<lparr>switches := AList.update name svp (switches d)\<rparr>) (mTelescope c)\<rparr>"

definition storeNumber :: "string \<Rightarrow> double list \<Rightarrow> INDIConnection \<Rightarrow> INDIConnection" where
  "storeNumber name np c =
     c\<lparr>mTelescope :=
         map_option (\<lambda>d. d\<lparr>numbers := AList.update name np (numbers d)\<rparr>) (mTelescope c)\<rparr>"

subsection \<open>Queries\<close>

definition position :: "INDIConnection \<Rightarrow> Coordinates" where
  "position c = mCoordinates c"

definition isDeviceConnected :: "INDIConnection \<Rightarrow> bool" where
  "isDeviceConnected c = (case mTelescope c of None \<Rightarrow> False | Some t \<Rightarrow> devConnected t)"

definition devices :: "INDIConnection \<Rightarrow> string list" where
  "devices c = mDevices c"

subsection \<open>Commands\<close>

text \<open>
  \<open>setPosition\<close>: returns at once without a telescope, when it is not connected, or when
  \<open>ON_COORD_SET\<close> is missing. \<open>TRACK\<close> is dereferenced unchecked. The switch is sent only
  when \<open>TRACK\<close> was off. Without \<open>EQUATORIAL_EOD_COORD\<close> the function returns after that;
  otherwise \<open>np[0]\<close> and \<open>np[1]\<close> are written and the number vector is sent.
\<close>

definition setPosition :: "INDIConnection \<Rightarrow> Coordinates \<Rightarrow> fault + INDIConnection" where
  "setPosition c coords =
     (case mTelescope c of
        None \<Rightarrow> Inr c
      | Some t \<Rightarrow>
          if \<not> devConnected t then Inr c
          else
            (case getSwitch (mTelescope c) ''ON_COORD_SET'' of
               None \<Rightarrow> Inr c
             | Some switchVector \<Rightarrow>
                 (case IUFindSwitch switchVector ''TRACK'' of
                    None \<Rightarrow> Inl NullPointer
                  | Some track \<Rightarrow>
                      let c1 =
                        (if swState (switchVector ! track) = ISS_OFF
                         then
                           (let sv1 = setState track ISS_ON switchVector
                            in send (SendNewSwitch (deviceName t) ''ON_COORD_SET'' sv1)
                                 (storeSwitch ''ON_COORD_SET'' sv1 c))
                         else c)
                      in
                        (case getNumber (mTelescope c1) ''EQUATORIAL_EOD_COORD'' of
                           None \<Rightarrow> Inr c1
                         | Some property \<Rightarrow>
                             if length property < 2 then Inl OutOfRange
                             else
                               (let np = property[0 := RA coords, 1 := DEC coords]
                                in Inr (send (SendNewNumber (deviceName t) ''EQUATORIAL_EOD_COORD'' np)
                                         (storeNumber ''EQUATORIAL_EOD_COORD'' np c1)))))))"

text \<open>
  \<open>syncPosition\<close>: the same guards. The three members of \<open>ON_COORD_SET\<close> are dereferenced
  unchecked, the switch is sent with \<open>SYNC\<close> on; without \<open>EQUATORIAL_EOD_COORD\<close> the
  function returns there. Otherwise the coordinates are written and sent, and the switch
  is sent again with \<open>TRACK\<close> on.
\<close>

definition syncPosition :: "INDIConnection \<Rightarrow> Coordinates \<Rightarrow> fault + INDIConnection" where
  "syncPosition c coords =
     (case mTelescope c of
        None \<Rightarrow> Inr c
      | Some t \<Rightarrow>
          if \<not> devConnected t then Inr c
          else
            (case getSwitch (mTelescope c) ''ON_COORD_SET'' of
               None \<Rightarrow> Inr c
             | Some switchVector \<Rightarrow>
                 (case IUFindSwitch switchVector ''TRACK'' of
                    None \<Rightarrow> Inl NullPointer
                  | Some track \<Rightarrow>
                 (case IUFindSwitch switchVector ''SLEW'' of
                    None \<Rightarrow> Inl NullPointer
                  | Some slew \<Rightarrow>
                 (case IUFindSwitch switchVector ''SYNC'' of
                    None \<Rightarrow> Inl NullPointer
                  | Some sync \<Rightarrow>
                      let sv1 = setState sync ISS_ON
                                  (setState slew ISS_OFF (setState track ISS_OFF switchVector));
                          c1 = send (SendNewSwitch (deviceName t) ''ON_COORD_SET'' sv1)
                                 (storeSwitch ''ON_COORD_SET'' sv1 c)
                      in
                        (case getNumber (mTelescope c1) ''EQUATORIAL_EOD_COORD'' of
                           None \<Rightarrow> Inr c1
                         | Some property \<Rightarrow>
                             if length property < 2 then Inl OutOfRange
                             else
                               (let np = property[0 := RA coords, 1 := DEC coords];
                                    c2 = send (SendNewNumber (deviceName t) ''EQUATORIAL_EOD_COORD'' np)
                                           (storeNumber ''EQUATORIAL_EOD_COORD'' np c1);
                                    sv2 = setState sync ISS_OFF
                                            (setState slew ISS_OFF (setState track ISS_ON sv1))
                                in Inr (send (SendNewSwitch (deviceName t) ''ON_COORD_SET'' sv2)
                                         (storeSwitch ''ON_COORD_SET'' sv2 c2)))))))))"

definition unParkTelescope :: "INDIConnection \<Rightarrow> fault + INDIConnection" where
  "unParkTelescope c =
     (case mTelescope c of
        None \<Rightarrow> Inr c
      | Some t \<Rightarrow>
          if \<not> devConnected t then Inr c
          else
            (case getSwitch (mTelescope c) ''TELESCOPE_PARK'' of
               None \<Rightarrow> Inr c
             | Some svp \<Rightarrow>
                 (case findWidgetByName (reset svp) ''UNPARK'' of
                    None \<Rightarrow> Inl NullPointer
                  | Some unparkS \<Rightarrow>
                      let svp1 = setState unparkS ISS_ON (reset svp)
                      in Inr (send (SendNewProperty (deviceName t) ''TELESCOPE_PARK'' svp1)
                               (storeSwitch ''TELESCOPE_PARK'' svp1 c)))))"

text \<open>
  \<open>setSpeed\<close> takes no lock: the move operations call it with the lock held. Its guard
  is \<open>!slewRateSP.isValid() || speed < 0 || speed > slewRateSP.count()\<close>, evaluated left
  to right. Past the guard it resets the vector, sets member \<open>speed\<close> on and sends; the
  index is not checked again, and indexing at \<open>count()\<close> is past the end.
\<close>

definition setSpeed :: "INDIConnection \<Rightarrow> int \<Rightarrow> fault + INDIConnection" where
  "setSpeed c speed =
     (case getSwitch (mTelescope c) ''TELESCOPE_SLEW_RATE'' of
        None \<Rightarrow> Inr c
      | Some slewRateSP \<Rightarrow>
          if speed < 0 then Inr c
          else if speed > int (length slewRateSP) then Inr c
          else if nat speed < length slewRateSP
          then
            (let sp = setState (nat speed) ISS_ON (reset slewRateSP)
             in Inr (send (SendNewProperty (getDeviceName (mTelescope c)) ''TELESCOPE_SLEW_RATE'' sp)
                      (storeSwitch ''TELESCOPE_SLEW_RATE'' sp c)))
          else Inl OutOfRange)"

text \<open>
  \<open>SLEW_STOP = INDI::Telescope::SLEW_GUIDE - 1\<close>. The enumerator \<open>SLEW_GUIDE\<close> belongs to
  the library, so its value is a parameter of the model.
\<close>

definition SLEW_STOP :: "int \<Rightarrow> int" where
  "SLEW_STOP SLEW_GUIDE = SLEW_GUIDE - 1"

text \<open>
  The four move operations differ in the names of the property and of the member only.
  The member pointer is fetched unchecked before the test of the speed and dereferenced
  after it (and after \<open>setSpeed\<close>, when the speed is not \<open>SLEW_STOP\<close>).
\<close>

definition moveNorth :: "int \<Rightarrow> INDIConnection \<Rightarrow> int \<Rightarrow> fault + INDIConnection" where
  "moveNorth SLEW_GUIDE c speed =
     (case mTelescope c of
        None \<Rightarrow> Inr c
      | Some t \<Rightarrow>
          if \<not> devConnected t then Inr c
          else
            (case getSwitch (mTelescope c) ''TELESCOPE_MOTION_NS'' of
               None \<Rightarrow> Inr c
             | Some svp \<Rightarrow>
                 let motion = findWidgetByName svp ''MOTION_NORTH'' in
                 if speed = SLEW_STOP SLEW_GUIDE
                 then
                   (case motion of
                      None \<Rightarrow> Inl NullPointer
                    | Some m \<Rightarrow>
                        let svp1 = setState m ISS_OFF svp
                        in Inr (send (SendNewProperty (deviceName t) ''TELESCOPE_MOTION_NS'' svp1)
                                 (storeSwitch ''TELESCOPE_MOTION_NS'' svp1 c)))
                 else
                   (case setSpeed c speed of
                      Inl f \<Rightarrow> Inl f
                    | Inr c1 \<Rightarrow>
                        (case motion of
                           None \<Rightarrow> Inl NullPointer
                         | Some m \<Rightarrow>
                             let svp1 = setState m ISS_ON svp
                             in Inr (send (SendNewProperty (deviceName t) ''TELESCOPE_MOTION_NS'' svp1)
                                      (storeSwitch ''TELESCOPE_MOTION_NS'' svp1 c1))))))"

definition moveEast :: "int \<Rightarrow> INDIConnection \<Rightarrow> int \<Rightarrow> fault + INDIConnection" where
  "moveEast SLEW_GUIDE c speed =
     (case mTelescope c of
        None \<Rightarrow> Inr c
      | Some t \<Rightarrow>
          if \<not> devConnected t then Inr c
          else
            (case getSwitch (mTelescope c) ''TELESCOPE_MOTION_WE'' of
               None \<Rightarrow> Inr c
             | Some svp \<Rightarrow>
                 let motion = findWidgetByName svp ''MOTION_EAST'' in
                 if speed = SLEW_STOP SLEW_GUIDE
                 then
                   (case motion of
                      None \<Rightarrow> Inl NullPointer
                    | Some m \<Rightarrow>
                        let svp1 = setState m ISS_OFF svp
                        in Inr (send (SendNewProperty (deviceName t) ''TELESCOPE_MOTION_WE'' svp1)
                                 (storeSwitch ''TELESCOPE_MOTION_WE'' svp1 c)))
                 else
                   (case setSpeed c speed of
                      Inl f \<Rightarrow> Inl f
                    | Inr c1 \<Rightarrow>
                        (case motion of
                           None \<Rightarrow> Inl NullPointer
                         | Some m \<Rightarrow>
                             let svp1 = setState m ISS_ON svp
                             in Inr (send (SendNewProperty (deviceName t) ''TELESCOPE_MOTION_WE'' svp1)
                                      (storeSwitch ''TELESCOPE_MOTION_WE'' svp1 c1))))))"

definition moveSouth :: "int \<Rightarrow> INDIConnection \<Rightarrow> int \<Rightarrow> fault + INDIConnection" where
  "moveSouth SLEW_GUIDE c speed =
     (case mTelescope c of
        None \<Rightarrow> Inr c
      | Some t \<Rightarrow>
          if \<not> devConnected t then Inr c
          else
            (case getSwitch (mTelescope c) ''TELESCOPE_MOTION_NS'' of
               None \<Rightarrow> Inr c
             | Some svp \<Rightarrow>
                 let motion = findWidgetByName svp ''MOTION_SOUTH'' in
                 if speed = SLEW_STOP SLEW_GUIDE
                 then
                   (case motion of
                      None \<Rightarrow> Inl NullPointer
                    | Some m \<Rightarrow>
                        let svp1 = setState m ISS_OFF svp
                        in Inr (send (SendNewProperty (deviceName t) ''TELESCOPE_MOTION_NS'' svp1)
                                 (storeSwitch ''TELESCOPE_MOTION_NS'' svp1 c)))
                 else
                   (case setSpeed c speed of
                      Inl f \<Rightarrow> Inl f
                    | Inr c1 \<Rightarrow>
                        (case motion of
                           None \<Rightarrow> Inl NullPointer
                         | Some m \<Rightarrow>
                             let svp1 = setState m ISS_ON svp
                             in Inr (send (SendNewProperty (deviceName t) ''TELESCOPE_MOTION_NS'' svp1)
                                      (storeSwitch ''TELESCOPE_MOTION_NS'' svp1 c1))))))"

definition moveWest :: "int \<Rightarrow> INDIConnection \<Rightarrow> int \<Rightarrow> fault + INDIConnection" where
  "moveWest SLEW_GUIDE c speed =
     (case mTelescope c of
        None \<Rightarrow> Inr c
      | Some t \<Rightarrow>
          if \<not> devConnected t then Inr c
          else
            (case getSwitch (mTelescope c) ''TELESCOPE_MOTION_WE'' of
               None \<Rightarrow> Inr c
             | Some svp \<Rightarrow>
                 let motion = findWidgetByName svp ''MOTION_WEST'' in
                 if speed = SLEW_STOP SLEW_GUIDE
                 then
                   (case motion of
                      None \<Rightarrow> Inl NullPointer
                    | Some m \<Rightarrow>
                        let svp1 = setState m ISS_OFF svp
                        in Inr (send (SendNewProperty (deviceName t) ''TELESCOPE_MOTION_WE'' svp1)
                                 (storeSwitch ''TELESCOPE_MOTION_WE'' svp1 c)))
                 else
                   (case setSpeed c speed of
                      Inl f \<Rightarrow> Inl f
                    | Inr c1 \<Rightarrow>
                        (case motion of
                           None \<Rightarrow> Inl NullPointer
                         | Some m \<Rightarrow>
                             let svp1 = setState m ISS_ON svp
                             in Inr (send (SendNewProperty (deviceName t) ''TELESCOPE_MOTION_WE'' svp1)
                                      (storeSwitch ''TELESCOPE_MOTION_WE'' svp1 c1))))))"

subsection \<open>Callbacks of the client\<close>

definition newDevice :: "INDIConnection \<Rightarrow> BaseDevice \<Rightarrow> INDIConnection" where
  "newDevice c dp =
     (case dp of
        None \<Rightarrow> c
      | Some d \<Rightarrow>
          let name = deviceName d
          in emit (newDeviceReceived name) (c\<lparr>mDevices := mDevices c @ [name], mTelescope := dp\<rparr>))"

text \<open>\<open>QStringList::indexOf\<close>: the first index of the string, or -1; \<open>removeAt\<close>.\<close>

fun indexOf :: "string list \<Rightarrow> string \<Rightarrow> int" where
  "indexOf [] name = - 1"
| "indexOf (x # xs) name =
     (if x = name then 0
      else (let i = indexOf xs name in if i = - 1 then - 1 else i + 1))"

definition removeAt :: "string list \<Rightarrow> int \<Rightarrow> string list" where
  "removeAt xs i = take (nat i) xs @ drop (Suc (nat i)) xs"

definition removeDevice :: "INDIConnection \<Rightarrow> BaseDevice \<Rightarrow> INDIConnection" where
  "removeDevice c dp =
     (case dp of
        None \<Rightarrow> c
      | Some d \<Rightarrow>
          let name = deviceName d;
              index = indexOf (mDevices c) name;
              c1 = (if index \<noteq> - 1 then c\<lparr>mDevices := removeAt (mDevices c) index\<rparr> else c);
              c2 = (if isDeviceNameMatch (mTelescope c1) (getDeviceName dp)
                    then c1\<lparr>mTelescope := None\<rparr> else c1)
          in emit (removeDeviceReceived name) c2)"

text \<open>
  \<open>property.getNumber()->at(0)->getValue()\<close> and \<open>at(1)\<close>: the first two values of a number
  vector.
\<close>

definition readCoordinates :: "Property \<Rightarrow> fault + Coordinates" where
  "readCoordinates property =
     (case propData property of
        NumberData np \<Rightarrow>
          if length np < 2 then Inl OutOfRange else Inr \<lparr>RA = np ! 0, DEC = np ! 1\<rparr>
      | SwitchData svp \<Rightarrow> Inl NullPointer
      | OtherData \<Rightarrow> Inl NullPointer)"

text \<open>
  \<open>newProperty\<close>: the guard returns when the name of the property's device \<^emph>\<open>matches\<close> the
  telescope's. Past it, the coordinates are read from a property called
  \<open>EQUATORIAL_EOD_COORD\<close>, and a telescope that is not connected is asked to connect.
  The request is recorded; whether the device is connected afterwards is the library's
  business and only decides a diagnostic line.
\<close>

definition newProperty :: "INDIConnection \<Rightarrow> Property \<Rightarrow> fault + INDIConnection" where
  "newProperty c property =
     (if isDeviceNameMatch (mTelescope c) (propDevice property) then Inr c
      else
        (case (if propName property = ''EQUATORIAL_EOD_COORD''
               then (case readCoordinates property of
                       Inl f \<Rightarrow> Inl f
                     | Inr coords \<Rightarrow> Inr (c\<lparr>mCoordinates := coords\<rparr>))
               else Inr c) of
           Inl f \<Rightarrow> Inl f
         | Inr c1 \<Rightarrow>
             if \<not> isConnected (mTelescope c1)
             then Inr (send (ConnectDevice (getDeviceName (mTelescope c1))) c1)
             else Inr c1))"

definition removeProperty :: "INDIConnection \<Rightarrow> Property \<Rightarrow> INDIConnection" where
  "removeProperty c property = c"

definition updateProperty :: "INDIConnection \<Rightarrow> Property \<Rightarrow> fault + INDIConnection" where
  "updateProperty c property =
     (if isNameMatch property ''TELESCOPE_SLEW_RATE''
      then
        (case propData property of
           SwitchData svp \<Rightarrow> Inr (emit (speedChanged (findOnSwitchIndex svp)) c)
         | NumberData np \<Rightarrow> Inl NullPointer
         | OtherData \<Rightarrow> Inl NullPointer)
      else if isNameMatch property ''EQUATORIAL_EOD_COORD''
      then
        (case readCoordinates property of
           Inl f \<Rightarrow> Inl f
         | Inr coords \<Rightarrow> Inr (c\<lparr>mCoordinates := coords\<rparr>))
      else Inr c)"

definition serverConnected :: "INDIConnection \<Rightarrow> INDIConnection" where
  "serverConnected c = emit serverConnectedReceived c"

definition serverDisconnected :: "INDIConnection \<Rightarrow> int \<Rightarrow> INDIConnection" where
  "serverDisconnected c exit_code =
     emit (serverDisconnectedReceived exit_code) (c\<lparr>mDevices := []\<rparr>)"

subsection \<open>The registry invariant\<close>

text \<open>
  The active telescope, when there is one, is a device the registry lists.
\<close>

definition registryInvariant :: "INDIConnection \<Rightarrow> bool" where
  "registryInvariant c =
     (case mTelescope c of None \<Rightarrow> True | Some t \<Rightarrow> deviceName t \<in> set (mDevices c))"

subsection \<open>Example states\<close>

text \<open>
  A mount that is connected and exposes the standard properties, with four slew rates;
  an adapter that has seen no device yet; the adapter with that mount as its telescope;
  the same with a mount that lacks \<open>ON_COORD_SET\<close>, and with one that lacks
  \<open>EQUATORIAL_EOD_COORD\<close>; and an \<open>EQUATORIAL_EOD_COORD\<close> property of a named device.
\<close>

definition mount :: BaseDeviceData where
  "mount =
     \<lparr>deviceName = ''Mount'', devConnected = True,
      switches =
        [(''ON_COORD_SET'',
            [ISwitch ''TRACK'' ISS_ON, ISwitch ''SLEW'' ISS_OFF, ISwitch ''SYNC'' ISS_OFF]),
         (''TELESCOPE_MOTION_NS'',
            [ISwitch ''MOTION_NORTH'' ISS_OFF, ISwitch ''MOTION_SOUTH'' ISS_OFF]),
         (''TELESCOPE_SLEW_RATE'',
            [ISwitch ''1x'' ISS_ON, ISwitch ''2x'' ISS_OFF,
             ISwitch ''3x'' ISS_OFF, ISwitch ''4x'' ISS_OFF])],
      numbers = [(''EQUATORIAL_EOD_COORD'', [Fin 0, Fin 0])]\<rparr>"

definition fresh :: INDIConnection where
  "fresh =
     \<lparr>mTelescope = None, mCoordinates = \<lparr>RA = Fin 0, DEC = Fin 0\<rparr>, mDevices = [],
      sent = [], emitted = []\<rparr>"

definition tracking :: INDIConnection where
  "tracking = fresh\<lparr>mTelescope := Some mount, mDevices := [''Mount'']\<rparr>"

definition withoutCoordSet :: INDIConnection where
  "withoutCoordSet = tracking\<lparr>mTelescope := Some (mount\<lparr>switches := []\<rparr>)\<rparr>"

definition withoutEod :: INDIConnection where
  "withoutEod = tracking\<lparr>mTelescope := Some (mount\<lparr>numbers := []\<rparr>)\<rparr>"

definition eod :: "string \<Rightarrow> double \<Rightarrow> double \<Rightarrow> Property" where
  "eod dev ra dec =
     \<lparr>propDevice = dev, propName = ''EQUATORIAL_EOD_COORD'', propData = NumberData [ra, dec]\<rparr>"

section \<open>Auxiliary facts\<close>

lemmas example_defs =
  mount_def fresh_def tracking_def withoutCoordSet_def withoutEod_def eod_def

subsection \<open>Traces and stored properties\<close>

lemma mTelescope_send [simp]: "mTelescope (send cmd c) = mTelescope c"
  by (simp add: send_def)

lemma sent_send [simp]: "sent (send cmd c) = sent c @ [cmd]"
  by (simp add: send_def)

lemma sent_storeSwitch [simp]: "sent (storeSwitch name svp c) = sent c"
  by (simp add: storeSwitch_def)

lemma sent_storeNumber [simp]: "sent (storeNumber name np c) = sent c"
  by (simp add: storeNumber_def)

lemma getSwitch_storeSwitch:
  "mTelescope c = Some t \<Longrightarrow>
   getSwitch (mTelescope (storeSwitch name svp c)) name' =
     (if name' = name then Some svp else getSwitch (mTelescope c) name')"
  by (simp add: storeSwitch_def getSwitch_def update_conv')

lemma getNumber_storeSwitch:
  "getNumber (mTelescope (storeSwitch name svp c)) name' = getNumber (mTelescope c) name'"
  by (cases "mTelescope c") (simp_all add: storeSwitch_def getNumber_def)

lemma getSwitch_storeNumber:
  "getSwitch (mTelescope (storeNumber name np c)) name' = getSwitch (mTelescope c) name'"
  by (cases "mTelescope c") (simp_all add: storeNumber_def getSwitch_def)

lemma mTelescope_storeSwitch_Some:
  "mTelescope c = Some t \<Longrightarrow> \<exists>t'. mTelescope (storeSwitch name svp c) = Some t'"
  by (simp add: storeSwitch_def)

subsection \<open>Members of a switch vector\<close>

lemma IUFindSwitch_Some:
  "IUFindSwitch svp name = Some i \<Longrightarrow> i < length svp \<and> swName (svp ! i) = name"
proof (induction svp arbitrary: i)
  case Nil
  then show ?case by simp
next
  case (Cons w ws)
  show ?case
  proof (cases "swName w = name")
    case True
    with Cons.prems show ?thesis by simp
  next
    case False
    with Cons.prems obtain j where j: "IUFindSwitch ws name = Some j" and i: "i = Suc j"
      by auto
    from Cons.IH [OF j] i show ?thesis by simp
  qed
qed

lemma map_swName_setState: "map swName (setState i st svp) = map swName svp"
  by (simp add: setState_def map_update) (metis ISwitch.sel(1) list_update_id map_update)

lemma IUFindSwitch_names:
  "map swName svp = map swName svp' \<Longrightarrow> IUFindSwitch svp name = IUFindSwitch svp' name"
proof (induction svp arbitrary: svp')
  case Nil
  then show ?case by simp
next
  case (Cons w ws)
  then obtain w' ws' where "svp' = w' # ws'" "swName w = swName w'" "map swName ws = map swName ws'"
    by (cases svp') auto
  with Cons.IH [of ws'] show ?case by simp
qed

lemma IUFindSwitch_setState: "IUFindSwitch (setState i st svp) name = IUFindSwitch svp name"
  by (rule IUFindSwitch_names) (rule map_swName_setState)

lemma length_setState: "length (setState i st svp) = length svp"
  by (simp add: setState_def)

lemma memberState_setState:
  "i < length svp \<Longrightarrow>
   memberState (setState i st svp) name =
     (if IUFindSwitch svp name = Some i then Some st else memberState svp name)"
proof -
  assume i: "i < length svp"
  have nth: "\<And>j. swState (setState i st svp ! j) = (if j = i then st else swState (svp ! j))"
    using i by (simp add: setState_def nth_list_update)
  show ?thesis
    by (cases "IUFindSwitch svp name") (simp_all add: memberState_def IUFindSwitch_setState nth)
qed

subsection \<open>The slew rate\<close>

text \<open>
  \<open>setSpeed\<close> returns at its guard when the rate vector is missing, the speed is negative
  or the speed exceeds the number of rates; it selects the rate for a speed below that
  number; and a speed equal to that number passes the guard and indexes the vector past
  its end.
\<close>

lemma setSpeed_guard:
  "(case getSwitch (mTelescope c) ''TELESCOPE_SLEW_RATE'' of
      None \<Rightarrow> True
    | Some rates \<Rightarrow> speed < 0 \<or> int (length rates) < speed) \<Longrightarrow>
   setSpeed c speed = Inr c"
  by (auto simp: setSpeed_def split: option.splits)

lemma setSpeed_in_range:
  "getSwitch (mTelescope c) ''TELESCOPE_SLEW_RATE'' = Some rates \<Longrightarrow>
   0 \<le> speed \<Longrightarrow> speed < int (length rates) \<Longrightarrow>
   setSpeed c speed =
     Inr (send (SendNewProperty (getDeviceName (mTelescope c)) ''TELESCOPE_SLEW_RATE''
                 (setState (nat speed) ISS_ON (reset rates)))
            (storeSwitch ''TELESCOPE_SLEW_RATE'' (setState (nat speed) ISS_ON (reset rates)) c))"
  by (simp add: setSpeed_def Let_def)

lemma setSpeed_at_count:
  "getSwitch (mTelescope c) ''TELESCOPE_SLEW_RATE'' = Some rates \<Longrightarrow>
   setSpeed c (int (length rates)) = Inl OutOfRange"
  by (simp add: setSpeed_def)

lemma map_swState_selected:
  "map swState (setState i ISS_ON (reset rates)) = (replicate (length rates) ISS_OFF)[i := ISS_ON]"
proof -
  have "map swState (reset rates) = replicate (length rates) ISS_OFF"
    by (induction rates) (simp_all add: reset_def)
  then show ?thesis
    by (simp add: setState_def map_update)
qed

subsection \<open>The registry\<close>

lemma indexOf_range: "indexOf xs name = - 1 \<or> (0 \<le> indexOf xs name \<and> nat (indexOf xs name) < length xs)"
  by (induction xs) (auto simp: Let_def)

lemma removeAt_indexOf:
  "indexOf xs name \<noteq> - 1 \<Longrightarrow> removeAt xs (indexOf xs name) = remove1 name xs"
proof (induction xs)
  case Nil
  then show ?case by simp
next
  case (Cons x xs)
  show ?case
  proof (cases "x = name")
    case True
    then show ?thesis by (simp add: removeAt_def)
  next
    case False
    with Cons.prems have ne: "indexOf xs name \<noteq> - 1" by (auto simp: Let_def split: if_splits)
    from indexOf_range [of xs name] ne have nn: "0 \<le> indexOf xs name" by auto
    from False ne have "indexOf (x # xs) name = indexOf xs name + 1" by (simp add: Let_def)
    moreover from nn have "nat (indexOf xs name + 1) = Suc (nat (indexOf xs name))" by simp
    ultimately have "removeAt (x # xs) (indexOf (x # xs) name) = x # removeAt xs (indexOf xs name)"
      by (simp add: removeAt_def)
    with Cons.IH [OF ne] False show ?thesis by simp
  qed
qed

text \<open>\<open>newDevice\<close> and \<open>removeDevice\<close> keep the registry invariant.\<close>

lemma newDevice_registryInvariant:
  "registryInvariant c \<Longrightarrow> registryInvariant (newDevice c dp)"
  by (cases dp) (simp_all add: newDevice_def registryInvariant_def emit_def Let_def)

lemma removeDevice_registryInvariant:
  assumes inv: "registryInvariant c"
  shows "registryInvariant (removeDevice c dp)"
proof (cases dp)
  case None
  with inv show ?thesis by (simp add: removeDevice_def)
next
  case (Some d)
  show ?thesis
  proof (cases "mTelescope c")
    case None
    with Some show ?thesis
      by (simp add: removeDevice_def registryInvariant_def emit_def Let_def)
  next
    case (Some t)
    with inv have mem: "deviceName t \<in> set (mDevices c)" by (simp add: registryInvariant_def)
    show ?thesis
    proof (cases "deviceName t = deviceName d")
      case True
      with Some \<open>dp = Some d\<close> show ?thesis
        by (simp add: removeDevice_def registryInvariant_def emit_def Let_def
            isDeviceNameMatch_def getDeviceName_def)
    next
      case False
      with mem have "deviceName t \<in> set (remove1 (deviceName d) (mDevices c))" by simp
      with False Some \<open>dp = Some d\<close> mem show ?thesis
        by (simp add: removeDevice_def registryInvariant_def emit_def Let_def
            isDeviceNameMatch_def getDeviceName_def removeAt_indexOf)
    qed
  qed
qed

section \<open>Properties of the comparison of coordinates\<close>

subsection \<open>Rounding\<close>

lemma roundeven_nearest: "\<bar>of_int (roundeven q) - q\<bar> \<le> 1 / 2"
proof -
  have "of_int \<lfloor>q\<rfloor> \<le> q" "q < of_int \<lfloor>q\<rfloor> + 1" by linarith+
  then show ?thesis by (auto simp: roundeven_def Let_def)
qed

lemma roundeven_tie: "q - of_int \<lfloor>q\<rfloor> = 1 / 2 \<Longrightarrow> even (roundeven q)"
  by (simp add: roundeven_def Let_def)

lemma round_double_cases: "(\<exists>m. round_double z = Fin m) \<or> round_double z = PInf \<or> round_double z = NInf"
  by (simp add: round_double_def Let_def)

lemma dabs_round_double_not_NaN: "dabs (round_double z) \<noteq> NaN"
  using round_double_cases [of z] by auto

lemma dabs_round_double_minus: "dabs (round_double (- z)) = dabs (round_double z)"
  by (simp add: round_double_def Let_def)

lemma round_double_zero: "round_double 0 = Fin 0"
  by (simp add: round_double_def)

lemma round_double_binade:
  assumes pos: "0 < x" and lo: "2 powr of_int k \<le> x" and hi: "x < 2 powr (of_int k + 1)"
  shows "round_double x =
     (let u = 2 powr (of_int (max k (- 1022)) - 52);
          m = of_int (roundeven (x / u)) * u
      in if 2 powr 1024 \<le> m then PInf else Fin m)"
proof -
  from pos lo hi have "\<lfloor>log 2 \<bar>x\<bar>\<rfloor> = k" by (simp add: floor_log_eq_powr_iff)
  with pos show ?thesis by (simp add: round_double_def Let_def)
qed

lemma roundeven_eval:
  "of_int f \<le> q \<Longrightarrow> q < of_int f + 1 \<Longrightarrow>
   roundeven q =
     (if q - of_int f < 1 / 2 then f
      else if 1 / 2 < q - of_int f then f + 1
      else if even f then f else f + 1)"
proof -
  assume "of_int f \<le> q" "q < of_int f + 1"
  then have "\<lfloor>q\<rfloor> = f" by (intro floor_unique) auto
  then show ?thesis by (simp add: roundeven_def Let_def)
qed

lemma round_double_eval:
  assumes pos: "0 < x" and lo: "2 powr of_int k \<le> x" and hi: "x < 2 powr (of_int k + 1)"
    and u: "u = 2 powr (of_int (max k (- 1022)) - 52)"
    and f: "of_int f \<le> x / u" "x / u < of_int f + 1"
    and n: "n = (if x / u - of_int f < 1 / 2 then f
                 else if 1 / 2 < x / u - of_int f then f + 1
                 else if even f then f else f + 1)"
  shows "round_double x = (if 2 powr 1024 \<le> of_int n * u then PInf else Fin (of_int n * u))"
proof -
  from f n have "roundeven (x / u) = n" by (simp add: roundeven_eval)
  with round_double_binade [OF pos lo hi] u show ?thesis by (simp add: Let_def)
qed

text \<open>
  The rounding at work: exact on a double, ties to the even neighbour in both
  directions, half the smallest subnormal number to zero, \<open>2 ^ 1024\<close> to infinity, and a
  difference just above machine epsilon to machine epsilon.
\<close>

lemma round_double_one: "round_double 1 = Fin 1"
proof -
  have "round_double 1 =
      (if 2 powr 1024 \<le> of_int (2 ^ 52) * (1 / 2 ^ 52 :: real) then PInf
       else Fin (of_int (2 ^ 52) * (1 / 2 ^ 52)))"
    by (rule round_double_eval [where k = 0 and f = "2 ^ 52"])
       (simp_all add: powr_minus powr_numeral field_simps)
  then show ?thesis by (simp add: powr_numeral)
qed

lemma round_double_tie_down: "round_double (1 + 1 / 2 ^ 53) = Fin 1"
proof -
  have "round_double (1 + 1 / 2 ^ 53) =
      (if 2 powr 1024 \<le> of_int (2 ^ 52) * (1 / 2 ^ 52 :: real) then PInf
       else Fin (of_int (2 ^ 52) * (1 / 2 ^ 52)))"
    by (rule round_double_eval [where k = 0 and f = "2 ^ 52"])
       (simp_all add: powr_minus powr_numeral field_simps)
  then show ?thesis by (simp add: powr_numeral)
qed

lemma round_double_tie_up: "round_double (1 + 3 / 2 ^ 53) = Fin (1 + 1 / 2 ^ 51)"
proof -
  have "round_double (1 + 3 / 2 ^ 53) =
      (if 2 powr 1024 \<le> of_int (2 ^ 52 + 2) * (1 / 2 ^ 52 :: real) then PInf
       else Fin (of_int (2 ^ 52 + 2) * (1 / 2 ^ 52)))"
    by (rule round_double_eval [where k = 0 and f = "2 ^ 52 + 1"])
       (simp_all add: powr_minus powr_numeral field_simps)
  then show ?thesis by (simp add: powr_numeral)
qed

lemma round_double_underflow: "round_double (1 / 2 ^ 1075) = Fin 0"
proof -
  have "round_double (1 / 2 ^ 1075) =
      (if 2 powr 1024 \<le> of_int 0 * (1 / 2 ^ 1074 :: real) then PInf
       else Fin (of_int 0 * (1 / 2 ^ 1074)))"
    by (rule round_double_eval [where k = "- 1075" and f = 0])
       (simp_all add: powr_minus powr_numeral field_simps)
  then show ?thesis by (simp add: powr_numeral)
qed

lemma round_double_overflow: "round_double (2 ^ 1024) = PInf"
proof -
  have "round_double (2 ^ 1024) =
      (if 2 powr 1024 \<le> of_int (2 ^ 52) * (2 ^ 972 :: real) then PInf
       else Fin (of_int (2 ^ 52) * 2 ^ 972))"
    by (rule round_double_eval [where k = 1024 and f = "2 ^ 52"])
       (simp_all add: powr_minus powr_numeral field_simps)
  then show ?thesis by (simp add: powr_numeral)
qed

lemma round_double_near_epsilon: "round_double (1 / 2 ^ 52 + 1 / 2 ^ 106) = Fin (1 / 2 ^ 52)"
proof -
  let ?x = "1 / 2 ^ 52 + 1 / 2 ^ 106 :: real"
  have pos: "0 < ?x" by simp
  have e: "\<lfloor>log 2 \<bar>?x\<bar>\<rfloor> = - 52"
  proof -
    have "2 powr of_int (- 52) \<le> ?x" by (simp add: powr_minus powr_numeral field_simps)
    moreover have "?x < 2 powr (of_int (- 52) + 1)"
    proof -
      have "(of_int (- 52) + 1 :: real) = - 51" by simp
      then show ?thesis by (simp add: powr_minus powr_numeral field_simps)
    qed
    ultimately have "\<lfloor>log 2 ?x\<rfloor> = - 52" using pos by (simp add: floor_log_eq_powr_iff)
    then show ?thesis by simp
  qed
  have u: "2 powr (of_int (max (- 52) (- 1022)) - 52) = (1 / 2 ^ 104 :: real)"
  proof -
    have "(of_int (max (- 52) (- 1022)) - 52 :: real) = - 104" by simp
    then show ?thesis by (simp add: powr_minus powr_numeral field_simps)
  qed
  have q: "\<bar>?x\<bar> / (1 / 2 ^ 104) = 2 ^ 52 + 1 / 4" by simp
  have fl: "\<lfloor>2 ^ 52 + 1 / 4 :: real\<rfloor> = 2 ^ 52"
    by (rule floor_unique) simp_all
  have r: "roundeven (2 ^ 52 + 1 / 4) = 2 ^ 52"
    by (simp add: roundeven_def fl)
  have big: "\<not> (2 powr 1024 \<le> (2 ^ 52 * (1 / 2 ^ 104) :: real))"
    by (simp add: powr_numeral field_simps)
  show ?thesis
    unfolding round_double_def Let_def e u q r using pos big
    by simp
qed

subsection \<open>The comparison\<close>

lemma dabs_dminus_commute: "dabs (dminus a b) = dabs (dminus b a)"
proof (cases a; cases b)
  fix x y assume "a = Fin x" "b = Fin y"
  then show ?thesis
    using dabs_round_double_minus [of "x - y"] by simp
qed simp_all

lemma dabs_dminus_self: "\<not> dgreater (dabs (dminus a a)) epsilon"
  by (cases a) (simp_all add: epsilon_def round_double_zero)

lemma not_dgreater_epsilon: "(\<not> dgreater x epsilon) = (dle x epsilon \<or> x = NaN)"
  by (cases x) (auto simp: epsilon_def)

lemma dgreater_rounded:
  "dgreater (dabs (round_double z)) epsilon = (\<not> dle (dabs (round_double z)) epsilon)"
  using not_dgreater_epsilon [of "dabs (round_double z)"] dabs_round_double_not_NaN [of z]
  by blast

text \<open>
  The right ascensions \<open>2 ^ -52\<close> and \<open>-(2 ^ -106)\<close> differ by more than machine epsilon,
  and compare equal: their difference rounds to machine epsilon.
\<close>

lemma Coordinates_eq_rounded_difference:
  "Coordinates_eq \<lparr>RA = Fin (1 / 2 ^ 52), DEC = Fin 0\<rparr> \<lparr>RA = Fin (- (1 / 2 ^ 106)), DEC = Fin 0\<rparr>"
  using round_double_near_epsilon
  by (simp add: Coordinates_eq_def epsilon_def round_double_zero)

text \<open>
  Claim C7, as the code has it. \<open>a == b\<close> holds exactly when each of \<open>|a.RA - b.RA|\<close> and
  \<open>|a.DEC - b.DEC|\<close>, as computed in double arithmetic, is at most machine epsilon or is
  NaN: the code tests "greater than", which is false on NaN. For finite components the
  computed difference is the exact difference rounded to a double, and \<open>a == b\<close> holds
  exactly when both rounded differences are at most machine epsilon in magnitude. The
  equality is symmetric and reflexive, and \<open>!=\<close> is its negation.
\<close>

theorem Coordinates_eq_tolerance:
  "(Coordinates_eq a b \<longleftrightarrow>
      (dle (dabs (dminus (RA a) (RA b))) epsilon \<or> dabs (dminus (RA a) (RA b)) = NaN) \<and>
      (dle (dabs (dminus (DEC a) (DEC b))) epsilon \<or> dabs (dminus (DEC a) (DEC b)) = NaN))
   \<and> (Coordinates_eq \<lparr>RA = Fin x, DEC = Fin y\<rparr> \<lparr>RA = Fin x', DEC = Fin y'\<rparr> \<longleftrightarrow>
        dle (dabs (round_double (x - x'))) epsilon \<and> dle (dabs (round_double (y - y'))) epsilon)
   \<and> (Coordinates_eq a b \<longleftrightarrow> Coordinates_eq b a)
   \<and> Coordinates_eq a a
   \<and> (Coordinates_neq a b \<longleftrightarrow> \<not> Coordinates_eq a b)"
proof -
  have iff: "Coordinates_eq a b \<longleftrightarrow>
      (dle (dabs (dminus (RA a) (RA b))) epsilon \<or> dabs (dminus (RA a) (RA b)) = NaN) \<and>
      (dle (dabs (dminus (DEC a) (DEC b))) epsilon \<or> dabs (dminus (DEC a) (DEC b)) = NaN)"
    unfolding Coordinates_eq_def not_dgreater_epsilon [symmetric] by simp
  have fin: "Coordinates_eq \<lparr>RA = Fin x, DEC = Fin y\<rparr> \<lparr>RA = Fin x', DEC = Fin y'\<rparr> \<longleftrightarrow>
        dle (dabs (round_double (x - x'))) epsilon \<and> dle (dabs (round_double (y - y'))) epsilon"
    by (simp add: Coordinates_eq_def dgreater_rounded)
  have sym: "Coordinates_eq a b \<longleftrightarrow> Coordinates_eq b a"
    unfolding Coordinates_eq_def
    by (simp add: dabs_dminus_commute [of "RA a" "RA b"] dabs_dminus_commute [of "DEC a" "DEC b"])
  have refl: "Coordinates_eq a a"
    unfolding Coordinates_eq_def by (simp add: dabs_dminus_self)
  have neq: "Coordinates_neq a b \<longleftrightarrow> \<not> Coordinates_eq a b"
    by (simp add: Coordinates_neq_def)
  from iff fin sym refl neq show ?thesis by blast
qed

text \<open>
  Claim C7 as stated fails where a difference is NaN: a NaN right ascension compares
  equal to 0, although the difference is not at most epsilon.
\<close>

theorem Coordinates_eq_NaN_counterexample:
  "\<not> (Coordinates_eq \<lparr>RA = NaN, DEC = Fin 0\<rparr> \<lparr>RA = Fin 0, DEC = Fin 0\<rparr> \<longleftrightarrow>
        dle (dabs (dminus (RA \<lparr>RA = NaN, DEC = Fin 0\<rparr>) (RA \<lparr>RA = Fin 0, DEC = Fin 0\<rparr>))) epsilon \<and>
        dle (dabs (dminus (DEC \<lparr>RA = NaN, DEC = Fin 0\<rparr>) (DEC \<lparr>RA = Fin 0, DEC = Fin 0\<rparr>))) epsilon)"
  by (simp add: Coordinates_eq_def epsilon_def round_double_zero)

section \<open>Commands\<close>

text \<open>
  Claim C6. Without an active telescope, \<open>setPosition\<close> returns normally for every
  coordinate argument, and the state it returns is the state it was given: nothing is
  transmitted, and coordinates, registry and telescope are unchanged.
\<close>

theorem setPosition_no_telescope:
  "mTelescope c = None \<Longrightarrow> setPosition c coords = Inr c"
  by (simp add: setPosition_def)

theorem setPosition_no_telescope_witness:
  "mTelescope fresh = None \<and> setPosition fresh \<lparr>RA = Fin 5, DEC = NaN\<rparr> = Inr fresh"
  using setPosition_no_telescope [of fresh "\<lparr>RA = Fin 5, DEC = NaN\<rparr>"]
  by (simp add: fresh_def)

text \<open>
  Claim C4, as the code has it. For a call of \<open>syncPosition\<close> with an active, connected
  telescope that has the switch \<open>ON_COORD_SET\<close> with members \<open>TRACK\<close>, \<open>SLEW\<close> and \<open>SYNC\<close>
  and the number vector \<open>EQUATORIAL_EOD_COORD\<close> with at least two members, the call returns
  and exactly three transmissions are added, in this order: \<open>ON_COORD_SET\<close> with \<open>SYNC\<close> on
  and \<open>TRACK\<close>, \<open>SLEW\<close> off; \<open>EQUATORIAL_EOD_COORD\<close> holding the given coordinates;
  \<open>ON_COORD_SET\<close> with \<open>TRACK\<close> on and \<open>SLEW\<close>, \<open>SYNC\<close> off. No step looks at the outcome
  of a transmission: the send calls return nothing.
\<close>

theorem syncPosition_three_transmissions:
  assumes tel: "mTelescope c = Some t" and conn: "devConnected t"
    and sw: "getSwitch (Some t) ''ON_COORD_SET'' = Some switchVector"
    and track: "IUFindSwitch switchVector ''TRACK'' = Some track"
    and slew: "IUFindSwitch switchVector ''SLEW'' = Some slew"
    and sync: "IUFindSwitch switchVector ''SYNC'' = Some sync"
    and num: "getNumber (Some t) ''EQUATORIAL_EOD_COORD'' = Some property"
    and len: "2 \<le> length property"
  shows "\<exists>c' sv1 np sv2.
     syncPosition c coords = Inr c' \<and>
     sent c' = sent c @ [SendNewSwitch (deviceName t) ''ON_COORD_SET'' sv1,
                         SendNewNumber (deviceName t) ''EQUATORIAL_EOD_COORD'' np,
                         SendNewSwitch (deviceName t) ''ON_COORD_SET'' sv2] \<and>
     memberState sv1 ''TRACK'' = Some ISS_OFF \<and>
     memberState sv1 ''SLEW'' = Some ISS_OFF \<and>
     memberState sv1 ''SYNC'' = Some ISS_ON \<and>
     take 2 np = [RA coords, DEC coords] \<and>
     memberState sv2 ''TRACK'' = Some ISS_ON \<and>
     memberState sv2 ''SLEW'' = Some ISS_OFF \<and>
     memberState sv2 ''SYNC'' = Some ISS_OFF"
proof -
  define sv1 where "sv1 = setState sync ISS_ON (setState slew ISS_OFF (setState track ISS_OFF switchVector))"
  define np where "np = property[0 := RA coords, 1 := DEC coords]"
  define sv2 where "sv2 = setState sync ISS_OFF (setState slew ISS_OFF (setState track ISS_ON sv1))"
  define c1 where "c1 = send (SendNewSwitch (deviceName t) ''ON_COORD_SET'' sv1) (storeSwitch ''ON_COORD_SET'' sv1 c)"
  define c2 where "c2 = send (SendNewNumber (deviceName t) ''EQUATORIAL_EOD_COORD'' np) (storeNumber ''EQUATORIAL_EOD_COORD'' np c1)"
  define c3 where "c3 = send (SendNewSwitch (deviceName t) ''ON_COORD_SET'' sv2) (storeSwitch ''ON_COORD_SET'' sv2 c2)"
  from tel conn sw track slew sync num len have run: "syncPosition c coords = Inr c3"
    by (simp add: syncPosition_def Let_def getNumber_storeSwitch
        sv1_def np_def sv2_def c1_def c2_def c3_def)
  have trace: "sent c3 = sent c @ [SendNewSwitch (deviceName t) ''ON_COORD_SET'' sv1,
                         SendNewNumber (deviceName t) ''EQUATORIAL_EOD_COORD'' np,
                         SendNewSwitch (deviceName t) ''ON_COORD_SET'' sv2]"
    by (simp add: c3_def c2_def c1_def)
  from IUFindSwitch_Some [OF track] IUFindSwitch_Some [OF slew] IUFindSwitch_Some [OF sync]
  have bounds: "track < length switchVector" "slew < length switchVector" "sync < length switchVector"
    and distinct: "track \<noteq> slew" "track \<noteq> sync" "slew \<noteq> sync"
    by auto
  have first: "memberState sv1 ''TRACK'' = Some ISS_OFF" "memberState sv1 ''SLEW'' = Some ISS_OFF"
      "memberState sv1 ''SYNC'' = Some ISS_ON"
    using bounds distinct track slew sync
    by (simp_all add: sv1_def memberState_setState length_setState IUFindSwitch_setState)
  have third: "memberState sv2 ''TRACK'' = Some ISS_ON" "memberState sv2 ''SLEW'' = Some ISS_OFF"
      "memberState sv2 ''SYNC'' = Some ISS_OFF"
    using bounds distinct track slew sync
    by (simp_all add: sv2_def sv1_def memberState_setState length_setState IUFindSwitch_setState)
  from len have second: "take 2 np = [RA coords, DEC coords]"
    by (cases property; cases "tl property") (simp_all add: np_def numeral_2_eq_2)
  from run trace first second third show ?thesis by blast
qed

theorem syncPosition_three_transmissions_witness:
  "\<exists>c' sv1 np sv2.
     syncPosition tracking \<lparr>RA = Fin 1, DEC = Fin 2\<rparr> = Inr c' \<and>
     sent c' = sent tracking @ [SendNewSwitch ''Mount'' ''ON_COORD_SET'' sv1,
                         SendNewNumber ''Mount'' ''EQUATORIAL_EOD_COORD'' np,
                         SendNewSwitch ''Mount'' ''ON_COORD_SET'' sv2] \<and>
     memberState sv1 ''TRACK'' = Some ISS_OFF \<and>
     memberState sv1 ''SLEW'' = Some ISS_OFF \<and>
     memberState sv1 ''SYNC'' = Some ISS_ON \<and>
     take 2 np = [Fin 1, Fin 2] \<and>
     memberState sv2 ''TRACK'' = Some ISS_ON \<and>
     memberState sv2 ''SLEW'' = Some ISS_OFF \<and>
     memberState sv2 ''SYNC'' = Some ISS_OFF"
  using syncPosition_three_transmissions [of tracking mount
      "[ISwitch ''TRACK'' ISS_ON, ISwitch ''SLEW'' ISS_OFF, ISwitch ''SYNC'' ISS_OFF]"
      0 1 2 "[Fin 0, Fin 0]" "\<lparr>RA = Fin 1, DEC = Fin 2\<rparr>"]
  by (simp add: example_defs getSwitch_def getNumber_def)

text \<open>
  Claim C4 as stated fails for a connected telescope that lacks one of the two
  properties: without \<open>ON_COORD_SET\<close> nothing is transmitted, and without
  \<open>EQUATORIAL_EOD_COORD\<close> the function returns after the first transmission.
\<close>

theorem syncPosition_missing_property_counterexample:
  "isDeviceConnected withoutCoordSet
   \<and> syncPosition withoutCoordSet \<lparr>RA = Fin 1, DEC = Fin 2\<rparr> = Inr withoutCoordSet
   \<and> isDeviceConnected withoutEod
   \<and> sent withoutEod = []
   \<and> syncPosition withoutEod \<lparr>RA = Fin 1, DEC = Fin 2\<rparr> =
       Inr (send (SendNewSwitch ''Mount'' ''ON_COORD_SET''
                    [ISwitch ''TRACK'' ISS_OFF, ISwitch ''SLEW'' ISS_OFF, ISwitch ''SYNC'' ISS_ON])
              (storeSwitch ''ON_COORD_SET''
                 [ISwitch ''TRACK'' ISS_OFF, ISwitch ''SLEW'' ISS_OFF, ISwitch ''SYNC'' ISS_ON]
                 withoutEod))"
  by (simp add: syncPosition_def example_defs getSwitch_def getNumber_def setState_def
      isDeviceConnected_def send_def storeSwitch_def Let_def)

text \<open>
  Claim C2, evaluated on the mount with four slew rates. A speed of 4, the number of
  rates, is not rejected by the guard \<open>speed > count()\<close>: the vector is reset and member
  4, one past the end, is written. Speeds -1 and 5 are rejected and leave the state as
  it is.
\<close>

theorem setSpeed_count_not_rejected:
  "map_option length (getSwitch (mTelescope tracking) ''TELESCOPE_SLEW_RATE'') = Some 4
   \<and> setSpeed tracking 4 = Inl OutOfRange
   \<and> setSpeed tracking (- 1) = Inr tracking
   \<and> setSpeed tracking 5 = Inr tracking"
  by (simp add: setSpeed_def example_defs getSwitch_def)

text \<open>
  Claim C5, as the code has it. On an active, connected telescope whose
  \<open>TELESCOPE_MOTION_NS\<close> property has the member \<open>MOTION_NORTH\<close>: \<open>SLEW_STOP\<close> is one less
  than \<open>SLEW_GUIDE\<close>; \<open>moveNorth(SLEW_STOP)\<close> sends the motion property once, with
  \<open>MOTION_NORTH\<close> off, and leaves the slew-rate property as it is. For any other speed,
  except a speed equal to the number \<open>count\<close> of members of an existing slew-rate
  property, \<open>moveNorth\<close> calls \<open>setSpeed\<close> first: when the slew-rate property exists and
  \<open>0 \<le> speed < count\<close>, the rate vector is sent with member \<open>speed\<close> on and all others off,
  and then the motion property with \<open>MOTION_NORTH\<close> on; when the slew-rate property is
  missing, or the speed is negative or greater than \<open>count\<close>, only the motion property is
  sent, with \<open>MOTION_NORTH\<close> on, and the slew rate is untouched. In all these cases the
  call returns and its last transmission is the motion property with \<open>MOTION_NORTH\<close> on.
  Nothing is stated for \<open>speed = count\<close>.
\<close>

theorem moveNorth_stop_and_go:
  assumes tel: "mTelescope c = Some t" and conn: "devConnected t"
    and ns: "getSwitch (Some t) ''TELESCOPE_MOTION_NS'' = Some svp"
    and motion: "findWidgetByName svp ''MOTION_NORTH'' = Some m"
  shows
   "SLEW_STOP SLEW_GUIDE = SLEW_GUIDE - 1
    \<and> (\<exists>c'. moveNorth SLEW_GUIDE c (SLEW_STOP SLEW_GUIDE) = Inr c'
          \<and> sent c' = sent c @
              [SendNewProperty (deviceName t) ''TELESCOPE_MOTION_NS'' (setState m ISS_OFF svp)]
          \<and> memberState (setState m ISS_OFF svp) ''MOTION_NORTH'' = Some ISS_OFF
          \<and> getSwitch (mTelescope c') ''TELESCOPE_MOTION_NS'' = Some (setState m ISS_OFF svp)
          \<and> getSwitch (mTelescope c') ''TELESCOPE_SLEW_RATE'' =
              getSwitch (mTelescope c) ''TELESCOPE_SLEW_RATE'')
    \<and> (speed \<noteq> SLEW_STOP SLEW_GUIDE \<longrightarrow>
        getSwitch (Some t) ''TELESCOPE_SLEW_RATE'' = Some rates \<longrightarrow>
        0 \<le> speed \<longrightarrow> speed < int (length rates) \<longrightarrow>
          (\<exists>c'. moveNorth SLEW_GUIDE c speed = Inr c'
             \<and> sent c' = sent c @
                 [SendNewProperty (deviceName t) ''TELESCOPE_SLEW_RATE''
                    (setState (nat speed) ISS_ON (reset rates)),
                  SendNewProperty (deviceName t) ''TELESCOPE_MOTION_NS'' (setState m ISS_ON svp)]
             \<and> map swState (setState (nat speed) ISS_ON (reset rates)) =
                 (replicate (length rates) ISS_OFF)[nat speed := ISS_ON]
             \<and> memberState (setState m ISS_ON svp) ''MOTION_NORTH'' = Some ISS_ON
             \<and> getSwitch (mTelescope c') ''TELESCOPE_SLEW_RATE'' =
                 Some (setState (nat speed) ISS_ON (reset rates))
             \<and> getSwitch (mTelescope c') ''TELESCOPE_MOTION_NS'' = Some (setState m ISS_ON svp)))
    \<and> (speed \<noteq> SLEW_STOP SLEW_GUIDE \<longrightarrow>
        (case getSwitch (Some t) ''TELESCOPE_SLEW_RATE'' of
           None \<Rightarrow> True
         | Some rates \<Rightarrow> speed < 0 \<or> int (length rates) < speed) \<longrightarrow>
          (\<exists>c'. moveNorth SLEW_GUIDE c speed = Inr c'
             \<and> sent c' = sent c @
                 [SendNewProperty (deviceName t) ''TELESCOPE_MOTION_NS'' (setState m ISS_ON svp)]
             \<and> memberState (setState m ISS_ON svp) ''MOTION_NORTH'' = Some ISS_ON
             \<and> getSwitch (mTelescope c') ''TELESCOPE_MOTION_NS'' = Some (setState m ISS_ON svp)
             \<and> getSwitch (mTelescope c') ''TELESCOPE_SLEW_RATE'' =
                 getSwitch (mTelescope c) ''TELESCOPE_SLEW_RATE''))
    \<and> (speed \<noteq> SLEW_STOP SLEW_GUIDE \<longrightarrow>
        (case getSwitch (Some t) ''TELESCOPE_SLEW_RATE'' of
           None \<Rightarrow> True
         | Some rates \<Rightarrow> speed \<noteq> int (length rates)) \<longrightarrow>
          (\<exists>c'. moveNorth SLEW_GUIDE c speed = Inr c'
             \<and> sent c' \<noteq> []
             \<and> last (sent c') =
                 SendNewProperty (deviceName t) ''TELESCOPE_MOTION_NS'' (setState m ISS_ON svp)
             \<and> memberState (setState m ISS_ON svp) ''MOTION_NORTH'' = Some ISS_ON
             \<and> getSwitch (mTelescope c') ''TELESCOPE_MOTION_NS'' = Some (setState m ISS_ON svp)))"
proof -
  from motion have find: "IUFindSwitch svp ''MOTION_NORTH'' = Some m"
    by (simp add: findWidgetByName_def)
  from IUFindSwitch_Some [OF find] have m: "m < length svp" by simp
  have member: "memberState (setState m st svp) ''MOTION_NORTH'' = Some st" for st
    using m find by (simp add: memberState_setState)
  have stop: "moveNorth SLEW_GUIDE c (SLEW_STOP SLEW_GUIDE) =
      Inr (send (SendNewProperty (deviceName t) ''TELESCOPE_MOTION_NS'' (setState m ISS_OFF svp))
             (storeSwitch ''TELESCOPE_MOTION_NS'' (setState m ISS_OFF svp) c))"
    using tel conn ns motion by (simp add: moveNorth_def Let_def)
  have part1: "\<exists>c'. moveNorth SLEW_GUIDE c (SLEW_STOP SLEW_GUIDE) = Inr c'
          \<and> sent c' = sent c @
              [SendNewProperty (deviceName t) ''TELESCOPE_MOTION_NS'' (setState m ISS_OFF svp)]
          \<and> memberState (setState m ISS_OFF svp) ''MOTION_NORTH'' = Some ISS_OFF
          \<and> getSwitch (mTelescope c') ''TELESCOPE_MOTION_NS'' = Some (setState m ISS_OFF svp)
          \<and> getSwitch (mTelescope c') ''TELESCOPE_SLEW_RATE'' =
              getSwitch (mTelescope c) ''TELESCOPE_SLEW_RATE''"
    unfolding stop using tel member [of ISS_OFF]
    by (simp add: getSwitch_storeSwitch)
  have part2: "\<exists>c'. moveNorth SLEW_GUIDE c speed = Inr c'
             \<and> sent c' = sent c @
                 [SendNewProperty (deviceName t) ''TELESCOPE_SLEW_RATE''
                    (setState (nat speed) ISS_ON (reset rs)),
                  SendNewProperty (deviceName t) ''TELESCOPE_MOTION_NS'' (setState m ISS_ON svp)]
             \<and> map swState (setState (nat speed) ISS_ON (reset rs)) =
                 (replicate (length rs) ISS_OFF)[nat speed := ISS_ON]
             \<and> memberState (setState m ISS_ON svp) ''MOTION_NORTH'' = Some ISS_ON
             \<and> getSwitch (mTelescope c') ''TELESCOPE_SLEW_RATE'' =
                 Some (setState (nat speed) ISS_ON (reset rs))
             \<and> getSwitch (mTelescope c') ''TELESCOPE_MOTION_NS'' = Some (setState m ISS_ON svp)"
    if go: "speed \<noteq> SLEW_STOP SLEW_GUIDE"
      and rate: "getSwitch (Some t) ''TELESCOPE_SLEW_RATE'' = Some rs"
      and range: "0 \<le> speed" "speed < int (length rs)"
    for rs
  proof -
    define c1 where "c1 =
      send (SendNewProperty (deviceName t) ''TELESCOPE_SLEW_RATE''
              (setState (nat speed) ISS_ON (reset rs)))
        (storeSwitch ''TELESCOPE_SLEW_RATE'' (setState (nat speed) ISS_ON (reset rs)) c)"
    from tel rate range have speed: "setSpeed c speed = Inr c1"
      by (simp add: setSpeed_in_range c1_def getDeviceName_def)
    from tel obtain t1 where t1: "mTelescope c1 = Some t1"
      by (auto simp: c1_def dest: mTelescope_storeSwitch_Some)
    from tel have rate1: "getSwitch (mTelescope c1) ''TELESCOPE_SLEW_RATE'' =
        Some (setState (nat speed) ISS_ON (reset rs))"
      by (simp add: c1_def getSwitch_storeSwitch)
    have run: "moveNorth SLEW_GUIDE c speed =
      Inr (send (SendNewProperty (deviceName t) ''TELESCOPE_MOTION_NS'' (setState m ISS_ON svp))
             (storeSwitch ''TELESCOPE_MOTION_NS'' (setState m ISS_ON svp) c1))"
      using tel conn ns motion go speed by (simp add: moveNorth_def Let_def)
    show ?thesis
      unfolding run using t1 rate1 member [of ISS_ON]
      by (simp add: getSwitch_storeSwitch map_swState_selected) (simp add: c1_def)
  qed
  have part3: "\<exists>c'. moveNorth SLEW_GUIDE c speed = Inr c'
             \<and> sent c' = sent c @
                 [SendNewProperty (deviceName t) ''TELESCOPE_MOTION_NS'' (setState m ISS_ON svp)]
             \<and> memberState (setState m ISS_ON svp) ''MOTION_NORTH'' = Some ISS_ON
             \<and> getSwitch (mTelescope c') ''TELESCOPE_MOTION_NS'' = Some (setState m ISS_ON svp)
             \<and> getSwitch (mTelescope c') ''TELESCOPE_SLEW_RATE'' =
                 getSwitch (mTelescope c) ''TELESCOPE_SLEW_RATE''"
    if go: "speed \<noteq> SLEW_STOP SLEW_GUIDE"
      and guard: "case getSwitch (Some t) ''TELESCOPE_SLEW_RATE'' of
           None \<Rightarrow> True
         | Some rates \<Rightarrow> speed < 0 \<or> int (length rates) < speed"
  proof -
    from tel guard have speed: "setSpeed c speed = Inr c"
      by (simp add: setSpeed_guard)
    have run: "moveNorth SLEW_GUIDE c speed =
      Inr (send (SendNewProperty (deviceName t) ''TELESCOPE_MOTION_NS'' (setState m ISS_ON svp))
             (storeSwitch ''TELESCOPE_MOTION_NS'' (setState m ISS_ON svp) c))"
      using tel conn ns motion go speed by (simp add: moveNorth_def Let_def)
    show ?thesis
      unfolding run using tel member [of ISS_ON]
      by (simp add: getSwitch_storeSwitch)
  qed
  have part4: "\<exists>c'. moveNorth SLEW_GUIDE c speed = Inr c'
             \<and> sent c' \<noteq> []
             \<and> last (sent c') =
                 SendNewProperty (deviceName t) ''TELESCOPE_MOTION_NS'' (setState m ISS_ON svp)
             \<and> memberState (setState m ISS_ON svp) ''MOTION_NORTH'' = Some ISS_ON
             \<and> getSwitch (mTelescope c') ''TELESCOPE_MOTION_NS'' = Some (setState m ISS_ON svp)"
    if go: "speed \<noteq> SLEW_STOP SLEW_GUIDE"
      and other: "case getSwitch (Some t) ''TELESCOPE_SLEW_RATE'' of
           None \<Rightarrow> True
         | Some rates \<Rightarrow> speed \<noteq> int (length rates)"
  proof (cases "getSwitch (Some t) ''TELESCOPE_SLEW_RATE''")
    case None
    then have "case getSwitch (Some t) ''TELESCOPE_SLEW_RATE'' of
           None \<Rightarrow> True
         | Some rates \<Rightarrow> speed < 0 \<or> int (length rates) < speed"
      by simp
    from part3 [OF go this] show ?thesis by auto
  next
    case (Some rs)
    show ?thesis
    proof (cases "0 \<le> speed \<and> speed < int (length rs)")
      case True
      with part2 [OF go Some] show ?thesis by auto
    next
      case False
      with Some other have "case getSwitch (Some t) ''TELESCOPE_SLEW_RATE'' of
           None \<Rightarrow> True
         | Some rates \<Rightarrow> speed < 0 \<or> int (length rates) < speed"
        by auto
      from part3 [OF go this] show ?thesis by auto
    qed
  qed
  have stop_def: "SLEW_STOP SLEW_GUIDE = SLEW_GUIDE - 1"
    by (simp add: SLEW_STOP_def)
  from stop_def part1 part2 [of rates] part3 part4 show ?thesis by blast
qed

theorem moveNorth_stop_and_go_witness:
  "(\<exists>c'. moveNorth 0 tracking (- 1) = Inr c'
      \<and> sent c' = [SendNewProperty ''Mount'' ''TELESCOPE_MOTION_NS''
                     [ISwitch ''MOTION_NORTH'' ISS_OFF, ISwitch ''MOTION_SOUTH'' ISS_OFF]]
      \<and> getSwitch (mTelescope c') ''TELESCOPE_SLEW_RATE'' =
          getSwitch (mTelescope tracking) ''TELESCOPE_SLEW_RATE'')
   \<and> (\<exists>c'. moveNorth 0 tracking 2 = Inr c'
      \<and> sent c' = [SendNewProperty ''Mount'' ''TELESCOPE_SLEW_RATE''
                     [ISwitch ''1x'' ISS_OFF, ISwitch ''2x'' ISS_OFF,
                      ISwitch ''3x'' ISS_ON, ISwitch ''4x'' ISS_OFF],
                   SendNewProperty ''Mount'' ''TELESCOPE_MOTION_NS''
                     [ISwitch ''MOTION_NORTH'' ISS_ON, ISwitch ''MOTION_SOUTH'' ISS_OFF]])
   \<and> (\<exists>c'. moveNorth 0 tracking 7 = Inr c'
      \<and> sent c' = [SendNewProperty ''Mount'' ''TELESCOPE_MOTION_NS''
                     [ISwitch ''MOTION_NORTH'' ISS_ON, ISwitch ''MOTION_SOUTH'' ISS_OFF]]
      \<and> getSwitch (mTelescope c') ''TELESCOPE_SLEW_RATE'' =
          getSwitch (mTelescope tracking) ''TELESCOPE_SLEW_RATE'')"
proof -
  have tel: "mTelescope tracking = Some mount" and conn: "devConnected mount"
    and ns: "getSwitch (Some mount) ''TELESCOPE_MOTION_NS'' =
        Some [ISwitch ''MOTION_NORTH'' ISS_OFF, ISwitch ''MOTION_SOUTH'' ISS_OFF]"
    and motion: "findWidgetByName [ISwitch ''MOTION_NORTH'' ISS_OFF, ISwitch ''MOTION_SOUTH'' ISS_OFF]
        ''MOTION_NORTH'' = Some 0"
    and rate: "getSwitch (Some mount) ''TELESCOPE_SLEW_RATE'' =
        Some [ISwitch ''1x'' ISS_ON, ISwitch ''2x'' ISS_OFF, ISwitch ''3x'' ISS_OFF, ISwitch ''4x'' ISS_OFF]"
    and nosent: "sent tracking = []"
    and name: "deviceName mount = ''Mount''"
    by (simp_all add: example_defs getSwitch_def findWidgetByName_def)
  have off: "setState 0 ISS_OFF [ISwitch ''MOTION_NORTH'' ISS_OFF, ISwitch ''MOTION_SOUTH'' ISS_OFF] =
      [ISwitch ''MOTION_NORTH'' ISS_OFF, ISwitch ''MOTION_SOUTH'' ISS_OFF]"
    and on: "setState 0 ISS_ON [ISwitch ''MOTION_NORTH'' ISS_OFF, ISwitch ''MOTION_SOUTH'' ISS_OFF] =
      [ISwitch ''MOTION_NORTH'' ISS_ON, ISwitch ''MOTION_SOUTH'' ISS_OFF]"
    and sel: "setState (nat 2) ISS_ON
        (reset [ISwitch ''1x'' ISS_ON, ISwitch ''2x'' ISS_OFF, ISwitch ''3x'' ISS_OFF, ISwitch ''4x'' ISS_OFF]) =
      [ISwitch ''1x'' ISS_OFF, ISwitch ''2x'' ISS_OFF, ISwitch ''3x'' ISS_ON, ISwitch ''4x'' ISS_OFF]"
    and stop: "SLEW_STOP 0 = - 1"
    by (simp_all add: setState_def reset_def SLEW_STOP_def)
  note inst = moveNorth_stop_and_go [OF tel conn ns motion, of 0, unfolded name off on stop nosent]
  have a: "\<exists>c'. moveNorth 0 tracking (- 1) = Inr c'
      \<and> sent c' = [SendNewProperty ''Mount'' ''TELESCOPE_MOTION_NS''
                     [ISwitch ''MOTION_NORTH'' ISS_OFF, ISwitch ''MOTION_SOUTH'' ISS_OFF]]
      \<and> getSwitch (mTelescope c') ''TELESCOPE_SLEW_RATE'' =
          getSwitch (mTelescope tracking) ''TELESCOPE_SLEW_RATE''"
    using inst [of 2 "[]"] by auto
  have b: "\<exists>c'. moveNorth 0 tracking 2 = Inr c'
      \<and> sent c' = [SendNewProperty ''Mount'' ''TELESCOPE_SLEW_RATE''
                     [ISwitch ''1x'' ISS_OFF, ISwitch ''2x'' ISS_OFF,
                      ISwitch ''3x'' ISS_ON, ISwitch ''4x'' ISS_OFF],
                   SendNewProperty ''Mount'' ''TELESCOPE_MOTION_NS''
                     [ISwitch ''MOTION_NORTH'' ISS_ON, ISwitch ''MOTION_SOUTH'' ISS_OFF]]"
    using inst [of 2 "[ISwitch ''1x'' ISS_ON, ISwitch ''2x'' ISS_OFF, ISwitch ''3x'' ISS_OFF, ISwitch ''4x'' ISS_OFF]",
        unfolded sel] rate
    by auto
  have c: "\<exists>c'. moveNorth 0 tracking 7 = Inr c'
      \<and> sent c' = [SendNewProperty ''Mount'' ''TELESCOPE_MOTION_NS''
                     [ISwitch ''MOTION_NORTH'' ISS_ON, ISwitch ''MOTION_SOUTH'' ISS_OFF]]
      \<and> getSwitch (mTelescope c') ''TELESCOPE_SLEW_RATE'' =
          getSwitch (mTelescope tracking) ''TELESCOPE_SLEW_RATE''"
    using inst [of 7 "[]"] rate by auto
  from a b c show ?thesis by blast
qed

text \<open>
  Claim C5 as stated fails for a speed that is not a rate index: \<open>moveNorth(7)\<close> on the
  mount with four rates sends the motion property only, and the slew-rate switch is not
  set to index 7: it is the same before and after the call.
\<close>

theorem moveNorth_out_of_range_counterexample:
  "moveNorth 0 tracking 7 =
     Inr (send (SendNewProperty ''Mount'' ''TELESCOPE_MOTION_NS''
                  [ISwitch ''MOTION_NORTH'' ISS_ON, ISwitch ''MOTION_SOUTH'' ISS_OFF])
            (storeSwitch ''TELESCOPE_MOTION_NS''
               [ISwitch ''MOTION_NORTH'' ISS_ON, ISwitch ''MOTION_SOUTH'' ISS_OFF] tracking))
   \<and> 7 \<noteq> SLEW_STOP 0
   \<and> isDeviceConnected tracking
   \<and> sent tracking = []
   \<and> getSwitch (mTelescope tracking) ''TELESCOPE_SLEW_RATE'' =
       Some [ISwitch ''1x'' ISS_ON, ISwitch ''2x'' ISS_OFF, ISwitch ''3x'' ISS_OFF, ISwitch ''4x'' ISS_OFF]
   \<and> getSwitch
         (mTelescope
            (storeSwitch ''TELESCOPE_MOTION_NS''
               [ISwitch ''MOTION_NORTH'' ISS_ON, ISwitch ''MOTION_SOUTH'' ISS_OFF] tracking))
         ''TELESCOPE_SLEW_RATE'' =
       Some [ISwitch ''1x'' ISS_ON, ISwitch ''2x'' ISS_OFF, ISwitch ''3x'' ISS_OFF, ISwitch ''4x'' ISS_OFF]"
  by (simp add: moveNorth_def setSpeed_def example_defs getSwitch_def findWidgetByName_def
      setState_def SLEW_STOP_def send_def storeSwitch_def isDeviceConnected_def Let_def)

section \<open>Callbacks\<close>

text \<open>
  Claim C1, evaluated with the mount as the active telescope. A new
  \<open>EQUATORIAL_EOD_COORD\<close> property of the mount itself is ignored, and the same property
  of another device is processed: its values become the cached coordinates. The guard
  of \<open>newProperty\<close> returns on a match, not on a mismatch.
\<close>

theorem newProperty_guard_inverted:
  "isDeviceNameMatch (mTelescope tracking) (propDevice (eod ''Mount'' (Fin 1) (Fin 2)))
   \<and> newProperty tracking (eod ''Mount'' (Fin 1) (Fin 2)) = Inr tracking
   \<and> \<not> isDeviceNameMatch (mTelescope tracking) (propDevice (eod ''Dome'' (Fin 3) (Fin 4)))
   \<and> newProperty tracking (eod ''Dome'' (Fin 3) (Fin 4)) =
       Inr (tracking\<lparr>mCoordinates := \<lparr>RA = Fin 3, DEC = Fin 4\<rparr>\<rparr>)"
  by (simp add: newProperty_def example_defs isDeviceNameMatch_def getDeviceName_def
      isConnected_def readCoordinates_def)

text \<open>
  Claim C10. Without an active telescope the handle is invalid and its name is empty, so
  the guard of \<open>newProperty\<close> lets pass every property of a named device: the values of an
  \<open>EQUATORIAL_EOD_COORD\<close> property are cached as the coordinates, and, the invalid handle
  not being connected, a connect request for the empty device name is issued (for a
  property of any other name, only the request). Devices of an INDI server have
  non-empty names; only a property whose device name were empty would match the invalid
  handle and be dropped at the guard.
\<close>

theorem newProperty_no_telescope:
  "mTelescope c = None \<Longrightarrow> propDevice property \<noteq> [] \<Longrightarrow>
   (propName property = ''EQUATORIAL_EOD_COORD'' \<longrightarrow>
      propData property = NumberData (ra # dec # rest) \<longrightarrow>
      newProperty c property =
        Inr (c\<lparr>mCoordinates := \<lparr>RA = ra, DEC = dec\<rparr>, sent := sent c @ [ConnectDevice []]\<rparr>))
   \<and> (propName property \<noteq> ''EQUATORIAL_EOD_COORD'' \<longrightarrow>
      newProperty c property = Inr (c\<lparr>sent := sent c @ [ConnectDevice []]\<rparr>))"
  by (simp add: newProperty_def isDeviceNameMatch_def getDeviceName_def isConnected_def
      readCoordinates_def send_def)

theorem newProperty_no_telescope_witness:
  "newProperty fresh (eod ''Mount'' (Fin 1) (Fin 2)) =
     Inr (fresh\<lparr>mCoordinates := \<lparr>RA = Fin 1, DEC = Fin 2\<rparr>, sent := [ConnectDevice []]\<rparr>)
   \<and> mTelescope (removeDevice tracking (Some mount)) = None
   \<and> newProperty (removeDevice tracking (Some mount)) (eod ''Mount'' (Fin 1) (Fin 2)) =
     Inr ((removeDevice tracking (Some mount))
            \<lparr>mCoordinates := \<lparr>RA = Fin 1, DEC = Fin 2\<rparr>, sent := [ConnectDevice []]\<rparr>)
   \<and> newProperty fresh \<lparr>propDevice = ''Mount'', propName = ''CONNECTION'', propData = OtherData\<rparr> =
     Inr (fresh\<lparr>sent := [ConnectDevice []]\<rparr>)"
  using newProperty_no_telescope [of fresh "eod ''Mount'' (Fin 1) (Fin 2)" "Fin 1" "Fin 2" "[]"]
    newProperty_no_telescope [of "removeDevice tracking (Some mount)" "eod ''Mount'' (Fin 1) (Fin 2)" "Fin 1" "Fin 2" "[]"]
    newProperty_no_telescope [of fresh "\<lparr>propDevice = ''Mount'', propName = ''CONNECTION'', propData = OtherData\<rparr>"]
  by (simp add: example_defs removeDevice_def isDeviceNameMatch_def getDeviceName_def emit_def
      Let_def)

text \<open>
  Claim C9. \<open>updateProperty\<close> caches the values of an \<open>EQUATORIAL_EOD_COORD\<close> property
  whatever device owns it and whatever the active telescope is, while \<open>newProperty\<close>
  returns at its device-name guard when the names match.
\<close>

theorem updateProperty_any_device:
  "propName property = ''EQUATORIAL_EOD_COORD'' \<Longrightarrow>
   propData property = NumberData (ra # dec # rest) \<Longrightarrow>
   updateProperty c (property\<lparr>propDevice := dev\<rparr>) =
     Inr (c\<lparr>mCoordinates := \<lparr>RA = ra, DEC = dec\<rparr>\<rparr>)
   \<and> (isDeviceNameMatch (mTelescope c) dev \<longrightarrow>
        newProperty c (property\<lparr>propDevice := dev\<rparr>) = Inr c)"
  by (simp add: updateProperty_def isNameMatch_def readCoordinates_def newProperty_def)

theorem updateProperty_any_device_witness:
  "updateProperty tracking (eod ''Mount'' (Fin 1) (Fin 2)) =
     Inr (tracking\<lparr>mCoordinates := \<lparr>RA = Fin 1, DEC = Fin 2\<rparr>\<rparr>)
   \<and> newProperty tracking (eod ''Mount'' (Fin 1) (Fin 2)) = Inr tracking
   \<and> updateProperty tracking (eod ''Dome'' (Fin 3) (Fin 4)) =
     Inr (tracking\<lparr>mCoordinates := \<lparr>RA = Fin 3, DEC = Fin 4\<rparr>\<rparr>)
   \<and> updateProperty fresh (eod ''Dome'' (Fin 3) (Fin 4)) =
     Inr (fresh\<lparr>mCoordinates := \<lparr>RA = Fin 3, DEC = Fin 4\<rparr>\<rparr>)"
  using updateProperty_any_device [of "eod ''Mount'' (Fin 1) (Fin 2)" "Fin 1" "Fin 2" "[]" tracking "''Mount''"]
        updateProperty_any_device [of "eod ''Dome'' (Fin 3) (Fin 4)" "Fin 3" "Fin 4" "[]" tracking "''Dome''"]
        updateProperty_any_device [of "eod ''Dome'' (Fin 3) (Fin 4)" "Fin 3" "Fin 4" "[]" fresh "''Dome''"]
  by (simp add: example_defs isDeviceNameMatch_def getDeviceName_def)

text \<open>
  Claim C3, evaluated after the mount was announced to a new adapter. \<open>newDevice\<close>
  establishes the invariant; \<open>serverDisconnected\<close> then empties the registry and keeps the
  telescope, so the telescope is present and not listed.
\<close>

theorem serverDisconnected_keeps_telescope:
  "registryInvariant (newDevice fresh (Some mount))
   \<and> mTelescope (serverDisconnected (newDevice fresh (Some mount)) 7) = Some mount
   \<and> mDevices (serverDisconnected (newDevice fresh (Some mount)) 7) = []
   \<and> \<not> registryInvariant (serverDisconnected (newDevice fresh (Some mount)) 7)"
  by (simp add: registryInvariant_def serverDisconnected_def newDevice_def emit_def fresh_def
      Let_def mount_def)

text \<open>
  Claim C8. For every exit code and every state, \<open>serverDisconnected\<close> empties the registry
  and emits the notification with that exit code, and changes nothing else: the cached
  coordinates and the active telescope are as before, and nothing is transmitted.
\<close>

theorem serverDisconnected_frame:
  "mDevices (serverDisconnected c exit_code) = []
   \<and> emitted (serverDisconnected c exit_code) = emitted c @ [serverDisconnectedReceived exit_code]
   \<and> mCoordinates (serverDisconnected c exit_code) = mCoordinates c
   \<and> mTelescope (serverDisconnected c exit_code) = mTelescope c
   \<and> sent (serverDisconnected c exit_code) = sent c"
  by (simp add: serverDisconnected_def emit_def)

end
